theory Spec2Isabelle
  imports Complex_Main
begin

section \<open>Budget tracker: aggregation, saving goals and the monthly plan\<close>

text \<open>
  A shallow embedding of the calculation core of \<^verbatim>\<open>budgetApp.py\<close>. Data frames are
  lists of records, one record per row, in row order. Money is a Python float in the
  source; here it is an exact real number, so rounding, infinities and NaN are outside
  the model. A cell that the source tests with \<^verbatim>\<open>pd.notna\<close> is an \<open>option\<close>.
  Strings are byte lists (UTF-8), which agrees with Python on equality of strings.
  Calls to the remote spreadsheet are modelled as succeeding, with one exception: a
  missing number cannot be sent, and the call that is given one raises.
\<close>

subsection \<open>Dates\<close>

text \<open>
  \<^verbatim>\<open>datetime.date\<close> is a year, a month and a day; \<^verbatim>\<open>datetime.datetime\<close> adds the time
  of day, kept here as the number of microseconds since midnight. The upper bound
  \<^verbatim>\<open>MAXYEAR\<close> of the library is not modelled.
\<close>

record date =
  year :: int
  month :: int
  day :: int

record datetime = date +
  tod :: int

definition mk_datetime :: "int \<Rightarrow> int \<Rightarrow> int \<Rightarrow> datetime" where
  "mk_datetime y m d = \<lparr>year = y, month = m, day = d, tod = 0\<rparr>"

definition is_leap :: "int \<Rightarrow> bool" where
  "is_leap y = (y mod 4 = 0 \<and> (y mod 100 \<noteq> 0 \<or> y mod 400 = 0))"

definition days_before_year :: "int \<Rightarrow> int" where
  "days_before_year y = (y - 1) * 365 + (y - 1) div 4 - (y - 1) div 100 + (y - 1) div 400"

definition days_in_month :: "int \<Rightarrow> int \<Rightarrow> int" where
  "days_in_month y m =
     (if m = 2 then (if is_leap y then 29 else 28)
      else if m = 4 \<or> m = 6 \<or> m = 9 \<or> m = 11 then 30 else 31)"

definition days_before_month :: "int \<Rightarrow> int \<Rightarrow> int" where
  "days_before_month y m = sum_list (map (days_in_month y) [1 .. m - 1])"

text \<open>The proleptic Gregorian ordinal of a date, as \<^verbatim>\<open>date.toordinal\<close> computes it.\<close>

definition toordinal :: "'a date_scheme \<Rightarrow> int" where
  "toordinal d = days_before_year (year d) + days_before_month (year d) (month d) + day d"

definition usec_per_day :: int where
  "usec_per_day = 86400000000"

text \<open>\<^verbatim>\<open>(a - b).days\<close> for two datetimes: the difference in whole days, rounded down.\<close>

definition datetime_diff_days :: "datetime \<Rightarrow> datetime \<Rightarrow> int" where
  "datetime_diff_days a b =
     ((toordinal a - toordinal b) * usec_per_day + (tod a - tod b)) div usec_per_day"

text \<open>\<^verbatim>\<open>(a - b).days\<close> for two dates.\<close>

definition date_diff_days :: "date \<Rightarrow> date \<Rightarrow> int" where
  "date_diff_days a b = toordinal a - toordinal b"

text \<open>
  A date of the calendar has a month from 1 to 12 and a day within that month. Dates
  compare as \<^verbatim>\<open>a <= b\<close> does in the source: by year, then month, then day.
\<close>

definition valid_date :: "'a date_scheme \<Rightarrow> bool" where
  "valid_date d = (1 \<le> month d \<and> month d \<le> 12 \<and> 1 \<le> day d
                   \<and> day d \<le> days_in_month (year d) (month d))"

definition date_less_eq :: "date \<Rightarrow> date \<Rightarrow> bool" where
  "date_less_eq a b =
     (year a < year b \<or>
      (year a = year b \<and> (month a < month b \<or> (month a = month b \<and> day a \<le> day b))))"

subsection \<open>Tables\<close>

record transaction =
  tx_Date :: "datetime option"
  tx_Type :: string
  tx_Category :: string
  tx_Amount :: real
  tx_Note :: string

record fixed_expense =
  fx_Name :: string
  fx_Amount :: real

subsection \<open>The unified ledger\<close>

text \<open>
  Each fixed expense is materialised as an expense dated to the first day of the current
  month; the ledger is the concatenation of the transactions and these rows, sorted by
  date (missing dates last). The order among equal dates is left open by the source; the
  model inserts stably.
\<close>

definition df_fixed_expenses_for_calc :: "datetime \<Rightarrow> fixed_expense list \<Rightarrow> transaction list" where
  "df_fixed_expenses_for_calc today df_fixed_expenses =
     map (\<lambda>row. \<lparr>tx_Date = Some (mk_datetime (year today) (month today) 1),
                 tx_Type = ''Expense'',
                 tx_Category = ''Fixed Expense'',
                 tx_Amount = fx_Amount row,
                 tx_Note = ''Fixed Monthly Expense: '' @ fx_Name row\<rparr>) df_fixed_expenses"

fun date_le :: "datetime option \<Rightarrow> datetime option \<Rightarrow> bool" where
  "date_le _ None = True"
| "date_le None (Some _) = False"
| "date_le (Some a) (Some b) =
     (toordinal a * usec_per_day + tod a \<le> toordinal b * usec_per_day + tod b)"

fun insert_by_Date :: "transaction \<Rightarrow> transaction list \<Rightarrow> transaction list" where
  "insert_by_Date x [] = [x]"
| "insert_by_Date x (y # ys) =
     (if date_le (tx_Date x) (tx_Date y) then x # y # ys else y # insert_by_Date x ys)"

definition sort_values_Date :: "transaction list \<Rightarrow> transaction list" where
  "sort_values_Date xs = foldr insert_by_Date xs []"

definition df_combined :: "datetime \<Rightarrow> transaction list \<Rightarrow> fixed_expense list \<Rightarrow> transaction list" where
  "df_combined today df df_fixed_expenses =
     sort_values_Date (df @ df_fixed_expenses_for_calc today df_fixed_expenses)"

subsection \<open>Dashboard metrics\<close>

record dashboard_metrics =
  income :: real
  expense :: real
  balance :: real
  suggested_daily :: real
  total_fixed_expenses :: real
  remaining_after_fixed :: real

text \<open>The payday anchor: day 25 of this month, or of the next once the 25th has passed.\<close>

definition target_date_for_daily_spend :: "datetime \<Rightarrow> datetime" where
  "target_date_for_daily_spend today =
     (let current_day = day today;
          current_month = month today;
          current_year = year today
      in if current_day > 25 then
           (if current_month = 12 then mk_datetime (current_year + 1) 1 25
            else mk_datetime current_year (current_month + 1) 25)
         else mk_datetime current_year current_month 25)"

definition days_until_25th :: "datetime \<Rightarrow> int" where
  "days_until_25th today = datetime_diff_days (target_date_for_daily_spend today) today"

text \<open>The safeguard of the source: a day count of zero or less becomes one.\<close>

definition days_until_25th_safe :: "datetime \<Rightarrow> int" where
  "days_until_25th_safe today =
     (if days_until_25th today \<le> 0 then 1 else days_until_25th today)"

definition calculate_dashboard_metrics ::
  "datetime \<Rightarrow> transaction list \<Rightarrow> fixed_expense list \<Rightarrow> dashboard_metrics" where
  "calculate_dashboard_metrics today df_combined_data df_fixed_expenses_data =
     (let inc = (if df_combined_data \<noteq> []
                 then sum_list (map tx_Amount (filter (\<lambda>r. tx_Type r = ''Income'') df_combined_data))
                 else 0);
          exs = (if df_combined_data \<noteq> []
                 then sum_list (map tx_Amount (filter (\<lambda>r. tx_Type r = ''Expense'') df_combined_data))
                 else 0);
          bal = (if df_combined_data \<noteq> [] then inc - exs else 0);
          total_fixed = (if df_fixed_expenses_data \<noteq> []
                         then sum_list (map fx_Amount df_fixed_expenses_data) else 0);
          quotient = bal / of_int (days_until_25th_safe today);
          suggested = (if quotient < 0 then 0 else quotient)
      in \<lparr>income = inc, expense = exs, balance = bal, suggested_daily = suggested,
          total_fixed_expenses = total_fixed,
          remaining_after_fixed = bal - total_fixed\<rparr>)"

subsection \<open>Saving goals\<close>

text \<open>A row of the goals data frame as the editor returns it; a cleared cell is \<open>None\<close>.\<close>

record saving_goal =
  GoalName :: "string option"
  GoalAmount :: "real option"
  Emoji :: string
  CurrentSaved :: "real option"
  TargetDate :: "date option"
  SavingFrequency :: string
  SavingAmountPerFreq :: "real option"

text \<open>A row as it is written to the goals sheet.\<close>

record goal_sheet_row =
  gs_GoalName :: string
  gs_GoalAmount :: real
  gs_Emoji :: string
  gs_CurrentSaved :: real
  gs_TargetDate :: date
  gs_SavingFrequency :: string
  gs_SavingAmountPerFreq :: real

text \<open>
  The progress shown on a goal card (\<^verbatim>\<open>display_saving_goals\<close>): a missing amount counts
  as zero, and the ratio is only formed for a positive target.
\<close>

definition progress_percent :: "real option \<Rightarrow> real option \<Rightarrow> real" where
  "progress_percent GoalAmount_cell CurrentSaved_cell =
     (let goal_amount = (case GoalAmount_cell of Some a \<Rightarrow> a | None \<Rightarrow> 0);
          current_saved = (case CurrentSaved_cell of Some c \<Rightarrow> c | None \<Rightarrow> 0);
          p = (if goal_amount > 0 then (current_saved / goal_amount) * 100 else 0)
      in min 100 (max 0 p))"

text \<open>
  The required amount per period as the bulk edit recomputes it
  (\<^verbatim>\<open>edit_delete_goals_section\<close>). A comparison with a missing \<^verbatim>\<open>CurrentSaved\<close> is false.
\<close>

definition edited_saving_amount_per_freq ::
  "date \<Rightarrow> real \<Rightarrow> real option \<Rightarrow> date \<Rightarrow> string \<Rightarrow> real" where
  "edited_saving_amount_per_freq today_date goal_amount current_saved target_date freq =
     (let edited_days_to_target = date_diff_days target_date today_date
      in case current_saved of
           None \<Rightarrow> 0
         | Some saved \<Rightarrow>
             if edited_days_to_target > 0 \<and> goal_amount > saved then
               (let edited_remaining_to_save = goal_amount - saved
                in if freq = ''Daily'' then
                     edited_remaining_to_save / of_int edited_days_to_target
                   else if freq = ''Weekly'' then
                     (let edited_weeks_to_target = of_int edited_days_to_target / 7
                      in if edited_weeks_to_target > 0
                         then edited_remaining_to_save / edited_weeks_to_target
                         else edited_remaining_to_save)
                   else if freq = ''Monthly'' then
                     (let edited_months_to_target = of_int edited_days_to_target / (3044 / 100)
                      in if edited_months_to_target > 0
                         then edited_remaining_to_save / edited_months_to_target
                         else edited_remaining_to_save)
                   else 0)
             else 0)"

text \<open>
  The same amount as the add-goal form computes it (\<^verbatim>\<open>add_new_goal_form\<close>): nothing is
  saved yet, so the whole target remains.
\<close>

definition new_saving_amount_per_freq :: "date \<Rightarrow> real \<Rightarrow> date option \<Rightarrow> string \<Rightarrow> real" where
  "new_saving_amount_per_freq today_date goal_amount target_date saving_frequency =
     (let days_to_target = (case target_date of
                              Some t \<Rightarrow> date_diff_days t today_date
                            | None \<Rightarrow> 0)
      in if days_to_target > 0 \<and> goal_amount > 0 then
           (let remaining_to_save = goal_amount
            in if saving_frequency = ''Daily'' then
                 remaining_to_save / of_int days_to_target
               else if saving_frequency = ''Weekly'' then
                 (let weeks_to_target = of_int days_to_target / 7
                  in if weeks_to_target > 0 then remaining_to_save / weeks_to_target
                     else remaining_to_save)
               else if saving_frequency = ''Monthly'' then
                 (let months_to_target = of_int days_to_target / (3044 / 100)
                  in if months_to_target > 0 then remaining_to_save / months_to_target
                     else 0)
               else 0)
         else 0)"

text \<open>
  The error of the HTTP client when a request body contains a number that JSON cannot
  carry, as a missing float does.
\<close>

datatype request_error = InvalidJSONError

text \<open>
  The rows that "Save Goal Edits" appends after clearing the sheet: one per edited row
  that has a name, an amount and a target date, in order. A row added in the editor has
  no \<^verbatim>\<open>CurrentSaved\<close> (the column is disabled); appending it raises, and the loop stops
  there with the rows appended so far.
\<close>

fun edited_goal_rows ::
  "date \<Rightarrow> saving_goal list \<Rightarrow> goal_sheet_row list \<times> request_error option" where
  "edited_goal_rows today_date [] = ([], None)"
| "edited_goal_rows today_date (row # rows) =
     (case (GoalName row, GoalAmount row, TargetDate row) of
        (Some name, Some amount, Some target) \<Rightarrow>
          (case CurrentSaved row of
             None \<Rightarrow> ([], Some InvalidJSONError)
           | Some saved \<Rightarrow>
               (let (written, err) = edited_goal_rows today_date rows
                in (\<lparr>gs_GoalName = name,
                     gs_GoalAmount = amount,
                     gs_Emoji = Emoji row,
                     gs_CurrentSaved = saved,
                     gs_TargetDate = target,
                     gs_SavingFrequency = SavingFrequency row,
                     gs_SavingAmountPerFreq =
                       edited_saving_amount_per_freq today_date amount (CurrentSaved row) target
                         (SavingFrequency row)\<rparr>
                    # written, err)))
      | _ \<Rightarrow> edited_goal_rows today_date rows)"

text \<open>The test of the source on a row, on its own.\<close>

definition has_essential_fields :: "saving_goal \<Rightarrow> bool" where
  "has_essential_fields row =
     (GoalName row \<noteq> None \<and> GoalAmount row \<noteq> None \<and> TargetDate row \<noteq> None)"

subsection \<open>Category names\<close>

text \<open>The canonical category names and their Thai display names (UTF-8 bytes).\<close>

definition CATEGORY_MAP :: "(string \<times> string) list" where
  "CATEGORY_MAP =
     [(''Food'', [CHR 0xE0, CHR 0xB8, CHR 0xAD, CHR 0xE0, CHR 0xB8, CHR 0xB2, CHR 0xE0, CHR 0xB8,
                  CHR 0xAB, CHR 0xE0, CHR 0xB8, CHR 0xB2, CHR 0xE0, CHR 0xB8, CHR 0xA3]),
      (''Travel'', [CHR 0xE0, CHR 0xB9, CHR 0x80, CHR 0xE0, CHR 0xB8, CHR 0x94, CHR 0xE0, CHR 0xB8,
                    CHR 0xB4, CHR 0xE0, CHR 0xB8, CHR 0x99, CHR 0xE0, CHR 0xB8, CHR 0x97, CHR 0xE0,
                    CHR 0xB8, CHR 0xB2, CHR 0xE0, CHR 0xB8, CHR 0x87]),
      (''Utilities'', [CHR 0xE0, CHR 0xB8, CHR 0x82, CHR 0xE0, CHR 0xB8, CHR 0xAD, CHR 0xE0,
                       CHR 0xB8, CHR 0x87, CHR 0xE0, CHR 0xB9, CHR 0x83, CHR 0xE0, CHR 0xB8,
                       CHR 0x8A, CHR 0xE0, CHR 0xB9, CHR 0x89]),
      (''Income'', [CHR 0xE0, CHR 0xB8, CHR 0xA3, CHR 0xE0, CHR 0xB8, CHR 0xB2, CHR 0xE0, CHR 0xB8,
                    CHR 0xA2, CHR 0xE0, CHR 0xB9, CHR 0x84, CHR 0xE0, CHR 0xB8, CHR 0x94, CHR 0xE0,
                    CHR 0xB9, CHR 0x89]),
      (''Others'', [CHR 0xE0, CHR 0xB8, CHR 0xAD, CHR 0xE0, CHR 0xB8, CHR 0xB7, CHR 0xE0, CHR 0xB9,
                    CHR 0x88, CHR 0xE0, CHR 0xB8, CHR 0x99, CHR 0xE0, CHR 0xB9, CHR 0x86]),
      (''Fixed Expense'', [CHR 0xE0, CHR 0xB8, CHR 0x84, CHR 0xE0, CHR 0xB9, CHR 0x88, CHR 0xE0,
                           CHR 0xB8, CHR 0xB2, CHR 0xE0, CHR 0xB9, CHR 0x83, CHR 0xE0, CHR 0xB8,
                           CHR 0x8A, CHR 0xE0, CHR 0xB9, CHR 0x89, CHR 0xE0, CHR 0xB8, CHR 0x88,
                           CHR 0xE0, CHR 0xB9, CHR 0x88, CHR 0xE0, CHR 0xB8, CHR 0xB2, CHR 0xE0,
                           CHR 0xB8, CHR 0xA2, CHR 0xE0, CHR 0xB8, CHR 0x9B, CHR 0xE0, CHR 0xB8,
                           CHR 0xA3, CHR 0xE0, CHR 0xB8, CHR 0xB0, CHR 0xE0, CHR 0xB8, CHR 0x88,
                           CHR 0xE0, CHR 0xB8, CHR 0xB3])]"

text \<open>\<^verbatim>\<open>CATEGORY_MAP.get(x, x)\<close>: the display name of a category.\<close>

definition category_display :: "string \<Rightarrow> string" where
  "category_display x = (case map_of CATEGORY_MAP x of Some v \<Rightarrow> v | None \<Rightarrow> x)"

text \<open>
  \<^verbatim>\<open>next((k for k, v in CATEGORY_MAP.items() if v == c), str(c))\<close>: the first canonical
  name displayed as \<open>c\<close>, or \<open>c\<close> itself.
\<close>

definition category_to_save :: "string \<Rightarrow> string" where
  "category_to_save c =
     (case find (\<lambda>(k, v). v = c) CATEGORY_MAP of Some (k, v) \<Rightarrow> k | None \<Rightarrow> c)"

subsection \<open>The monthly plan\<close>

record plan_item =
  MonthYear :: datetime
  ItemType :: string
  ItemName :: string
  Amount :: real
  Category :: string
  IsPaid :: bool
  DatePaid :: "datetime option"

text \<open>A row of the planned-expenses editor: four columns, the category as displayed.\<close>

record editor_row =
  ed_ItemName :: "string option"
  ed_Amount :: "real option"
  ed_Category :: string
  ed_IsPaid :: bool

definition in_month :: "datetime \<Rightarrow> plan_item \<Rightarrow> bool" where
  "in_month m r = (year (MonthYear r) = year m \<and> month (MonthYear r) = month m)"

definition current_month_plan_df :: "datetime \<Rightarrow> plan_item list \<Rightarrow> plan_item list" where
  "current_month_plan_df selected_plan_month df_monthly_plans =
     filter (in_month selected_plan_month) df_monthly_plans"

definition existing_planned_expenses :: "datetime \<Rightarrow> plan_item list \<Rightarrow> plan_item list" where
  "existing_planned_expenses selected_plan_month df_monthly_plans =
     filter (\<lambda>r. ItemType r = ''Expense'')
       (current_month_plan_df selected_plan_month df_monthly_plans)"

text \<open>
  The projection of the fixed expenses into the bucket: a synthetic unpaid item for each
  fixed expense that no planned expense of the bucket matches on name and category.
\<close>

fun fixed_expenses_to_add ::
  "datetime \<Rightarrow> plan_item list \<Rightarrow> fixed_expense list \<Rightarrow> plan_item list" where
  "fixed_expenses_to_add selected_plan_month existing [] = []"
| "fixed_expenses_to_add selected_plan_month existing (row # rows) =
     (if \<not> list_ex (\<lambda>r. ItemName r = fx_Name row \<and> Category r = ''Fixed Expense'') existing
      then \<lparr>MonthYear = selected_plan_month,
            ItemType = ''Expense'',
            ItemName = fx_Name row,
            Amount = fx_Amount row,
            Category = ''Fixed Expense'',
            IsPaid = False,
            DatePaid = None\<rparr>
           # fixed_expenses_to_add selected_plan_month existing rows
      else fixed_expenses_to_add selected_plan_month existing rows)"

text \<open>
  The expense items of the bucket after the projection: the stored ones followed by the
  synthetic ones. The editor shows these rows, reduced to its four columns.
\<close>

definition merged_planned_expenses ::
  "datetime \<Rightarrow> fixed_expense list \<Rightarrow> plan_item list \<Rightarrow> plan_item list" where
  "merged_planned_expenses selected_plan_month df_fixed_expenses df_monthly_plans =
     (let existing = existing_planned_expenses selected_plan_month df_monthly_plans
      in existing @ fixed_expenses_to_add selected_plan_month existing df_fixed_expenses)"

definition for_editor :: "plan_item \<Rightarrow> editor_row" where
  "for_editor r = \<lparr>ed_ItemName = Some (ItemName r), ed_Amount = Some (Amount r),
                   ed_Category = category_display (Category r), ed_IsPaid = IsPaid r\<rparr>"

definition initial_planned_expenses_for_editor ::
  "datetime \<Rightarrow> fixed_expense list \<Rightarrow> plan_item list \<Rightarrow> editor_row list" where
  "initial_planned_expenses_for_editor selected_plan_month df_fixed_expenses df_monthly_plans =
     map for_editor (merged_planned_expenses selected_plan_month df_fixed_expenses df_monthly_plans)"

text \<open>
  "Save Planned Expenses": each edited row with a name and a positive amount becomes an
  expense item of the bucket. Its paid status is taken from the first item of the
  bucket's snapshot, of either type, that has the same name and the same category.
\<close>

definition existing_item :: "plan_item list \<Rightarrow> string \<Rightarrow> string \<Rightarrow> plan_item list" where
  "existing_item snapshot name cat =
     filter (\<lambda>r. ItemName r = name \<and> Category r = cat) snapshot"

fun updated_expense_plan_rows ::
  "datetime \<Rightarrow> plan_item list \<Rightarrow> editor_row list \<Rightarrow> plan_item list" where
  "updated_expense_plan_rows selected_plan_month snapshot [] = []"
| "updated_expense_plan_rows selected_plan_month snapshot (row # rows) =
     (case (ed_ItemName row, ed_Amount row) of
        (Some name, Some amount) \<Rightarrow>
          if amount > 0 then
            (let cat = category_to_save (ed_Category row);
                 found = existing_item snapshot name cat;
                 is_paid_status = (case found of [] \<Rightarrow> False | e # _ \<Rightarrow> IsPaid e);
                 date_paid_status = (case found of [] \<Rightarrow> None | e # _ \<Rightarrow> DatePaid e)
             in \<lparr>MonthYear = selected_plan_month,
                 ItemType = ''Expense'',
                 ItemName = name,
                 Amount = amount,
                 Category = cat,
                 IsPaid = is_paid_status,
                 DatePaid = date_paid_status\<rparr>
                # updated_expense_plan_rows selected_plan_month snapshot rows)
          else updated_expense_plan_rows selected_plan_month snapshot rows
      | _ \<Rightarrow> updated_expense_plan_rows selected_plan_month snapshot rows)"

text \<open>The test of the source on an edited row, on its own.\<close>

definition row_is_kept :: "editor_row \<Rightarrow> bool" where
  "row_is_kept row = (case (ed_ItemName row, ed_Amount row) of
      (Some name, Some amount) \<Rightarrow> amount > 0 | _ \<Rightarrow> False)"

definition save_planned_expenses ::
  "datetime \<Rightarrow> plan_item list \<Rightarrow> editor_row list \<Rightarrow> plan_item list" where
  "save_planned_expenses selected_plan_month df_monthly_plans edited =
     filter (\<lambda>r. \<not> (in_month selected_plan_month r \<and> ItemType r = ''Expense'')) df_monthly_plans
     @ updated_expense_plan_rows selected_plan_month
         (current_month_plan_df selected_plan_month df_monthly_plans) edited"

text \<open>
  The lookup as the specification words it, for comparison: the first item of the
  snapshot that agrees with the edited row on name, category and amount.
\<close>

definition triple_match :: "plan_item list \<Rightarrow> string \<Rightarrow> string \<Rightarrow> real \<Rightarrow> plan_item option" where
  "triple_match snapshot name cat amount =
     find (\<lambda>r. ItemName r = name \<and> Category r = cat \<and> Amount r = amount) snapshot"

subsection \<open>Payment activation\<close>








subsection \<open>The record store and the add forms\<close>

text \<open>The four sheets, each as its list of data rows (the header row is left out).\<close>

record store =
  sheet :: "transaction list"
  fixed_expenses_sheet :: "fixed_expense list"
  goals_sheet :: "goal_sheet_row list"
  monthly_plans_sheet :: "plan_item list"

text \<open>What a handler shows to the user.\<close>

datatype feedback = Success | Warning | Info

text \<open>
  The entry form of the first tab. It has no name field, and its handler tests nothing
  but the submit button. \<open>income_selected\<close> says that the first radio option is chosen.
\<close>

definition entry_form ::
  "bool \<Rightarrow> date \<Rightarrow> bool \<Rightarrow> string \<Rightarrow> real \<Rightarrow> string \<Rightarrow> store \<Rightarrow> store \<times> feedback list" where
  "entry_form submitted entry_date income_selected category amount note st =
     (if submitted then
        (let type_to_save = (if income_selected then ''Income'' else ''Expense'')
         in (st\<lparr>sheet := sheet st @
                 [\<lparr>tx_Date = Some (mk_datetime (year entry_date) (month entry_date) (day entry_date)),
                   tx_Type = type_to_save,
                   tx_Category = category,
                   tx_Amount = amount,
                   tx_Note = note\<rparr>]\<rparr>,
             [Success]))
      else (st, []))"

definition add_fixed_expense_form ::
  "bool \<Rightarrow> string \<Rightarrow> real \<Rightarrow> store \<Rightarrow> store \<times> feedback list" where
  "add_fixed_expense_form add_fixed_submitted fixed_name fixed_amount st =
     (if add_fixed_submitted \<and> fixed_name \<noteq> [] \<and> fixed_amount > 0 then
        (st\<lparr>fixed_expenses_sheet := fixed_expenses_sheet st @
              [\<lparr>fx_Name = fixed_name, fx_Amount = fixed_amount\<rparr>]\<rparr>,
         [Success])
      else if add_fixed_submitted then (st, [Warning])
      else (st, []))"

text \<open>
  The add-goal form shows the required saving on every run; a submission that fails the
  test falls through without a message of its own.
\<close>

definition add_new_goal_form ::
  "date \<Rightarrow> bool \<Rightarrow> string \<Rightarrow> real \<Rightarrow> string \<Rightarrow> date option \<Rightarrow> string \<Rightarrow> store
     \<Rightarrow> store \<times> feedback list" where
  "add_new_goal_form today_date add_goal_submitted goal_name goal_amount goal_emoji target_date
       saving_frequency st =
     (let saving_amount_per_freq =
            new_saving_amount_per_freq today_date goal_amount target_date saving_frequency
      in case target_date of
           Some target \<Rightarrow>
             if add_goal_submitted \<and> goal_name \<noteq> [] \<and> goal_amount > 0 then
               (st\<lparr>goals_sheet := goals_sheet st @
                     [\<lparr>gs_GoalName = goal_name,
                       gs_GoalAmount = goal_amount,
                       gs_Emoji = goal_emoji,
                       gs_CurrentSaved = 0,
                       gs_TargetDate = target,
                       gs_SavingFrequency = saving_frequency,
                       gs_SavingAmountPerFreq = saving_amount_per_freq\<rparr>]\<rparr>,
                [Info, Success])
             else (st, [Info])
         | None \<Rightarrow> (st, [Info]))"

text \<open>
  "Save Goal Edits": the goals sheet is cleared and the rows are appended one by one. An
  error is caught and shown; the sheet then holds the rows appended before it.
\<close>

definition save_goal_edits ::
  "date \<Rightarrow> saving_goal list \<Rightarrow> store \<Rightarrow> store \<times> request_error option" where
  "save_goal_edits today_date df_saving_goals st =
     (case edited_goal_rows today_date df_saving_goals of
        (written, err) \<Rightarrow> (st\<lparr>goals_sheet := written\<rparr>, err))"

section \<open>Properties\<close>

subsection \<open>Aggregation\<close>

lemma sort_values_Date_Nil: "sort_values_Date xs = [] \<longleftrightarrow> xs = []"
  by (cases xs) (auto simp: sort_values_Date_def, metis insert_by_Date.elims list.distinct(1))

text \<open>
  C1. For every ledger and every list of fixed expenses, the income is the sum of the
  amounts of the rows of type Income, the expense the sum of the amounts of the rows of
  type Expense, the balance their difference, and the remainder after fixed expenses the
  balance less the sum of all fixed amounts. On an empty ledger income, expense, balance
  and the suggested daily spend are zero; the ledger contains the materialised fixed
  expenses, so when it is empty there are no fixed expenses either and every output is
  zero.
\<close>

theorem calculate_dashboard_metrics_totals:
  "income (calculate_dashboard_metrics today ledger fixed) =
     sum_list (map tx_Amount (filter (\<lambda>r. tx_Type r = ''Income'') ledger))
   \<and> expense (calculate_dashboard_metrics today ledger fixed) =
     sum_list (map tx_Amount (filter (\<lambda>r. tx_Type r = ''Expense'') ledger))
   \<and> balance (calculate_dashboard_metrics today ledger fixed) =
     income (calculate_dashboard_metrics today ledger fixed)
       - expense (calculate_dashboard_metrics today ledger fixed)
   \<and> remaining_after_fixed (calculate_dashboard_metrics today ledger fixed) =
     balance (calculate_dashboard_metrics today ledger fixed) - sum_list (map fx_Amount fixed)
   \<and> (ledger = [] \<longrightarrow>
        income (calculate_dashboard_metrics today ledger fixed) = 0 \<and>
        expense (calculate_dashboard_metrics today ledger fixed) = 0 \<and>
        balance (calculate_dashboard_metrics today ledger fixed) = 0 \<and>
        suggested_daily (calculate_dashboard_metrics today ledger fixed) = 0)
   \<and> (df_combined today df fixed = [] \<longrightarrow>
        calculate_dashboard_metrics today (df_combined today df fixed) fixed =
          \<lparr>income = 0, expense = 0, balance = 0, suggested_daily = 0,
           total_fixed_expenses = 0, remaining_after_fixed = 0\<rparr>)"
  by (auto simp: calculate_dashboard_metrics_def Let_def df_combined_def sort_values_Date_Nil
      df_fixed_expenses_for_calc_def)

theorem calculate_dashboard_metrics_totals_witness:
  "balance (calculate_dashboard_metrics (mk_datetime 2024 5 10)
      [\<lparr>tx_Date = None, tx_Type = ''Income'', tx_Category = ''Income'', tx_Amount = 50000, tx_Note = []\<rparr>,
       \<lparr>tx_Date = None, tx_Type = ''Expense'', tx_Category = ''Food'', tx_Amount = 20000, tx_Note = []\<rparr>]
      [\<lparr>fx_Name = ''Rent'', fx_Amount = 8000\<rparr>, \<lparr>fx_Name = ''Phone'', fx_Amount = 500\<rparr>]) = 30000
   \<and> remaining_after_fixed (calculate_dashboard_metrics (mk_datetime 2024 5 10)
      [\<lparr>tx_Date = None, tx_Type = ''Income'', tx_Category = ''Income'', tx_Amount = 50000, tx_Note = []\<rparr>,
       \<lparr>tx_Date = None, tx_Type = ''Expense'', tx_Category = ''Food'', tx_Amount = 20000, tx_Note = []\<rparr>]
      [\<lparr>fx_Name = ''Rent'', fx_Amount = 8000\<rparr>, \<lparr>fx_Name = ''Phone'', fx_Amount = 500\<rparr>]) = 21500
   \<and> df_combined (mk_datetime 2024 5 10) [] [] = []
   \<and> calculate_dashboard_metrics (mk_datetime 2024 5 10) (df_combined (mk_datetime 2024 5 10) [] []) [] =
          \<lparr>income = 0, expense = 0, balance = 0, suggested_daily = 0,
           total_fixed_expenses = 0, remaining_after_fixed = 0\<rparr>"
proof -
  have e: "df_combined (mk_datetime 2024 5 10) [] [] = []"
    by (simp add: df_combined_def sort_values_Date_def df_fixed_expenses_for_calc_def)
  show ?thesis
    using calculate_dashboard_metrics_totals [of "mk_datetime 2024 5 10"
      "[\<lparr>tx_Date = None, tx_Type = ''Income'', tx_Category = ''Income'', tx_Amount = 50000, tx_Note = []\<rparr>,
       \<lparr>tx_Date = None, tx_Type = ''Expense'', tx_Category = ''Food'', tx_Amount = 20000, tx_Note = []\<rparr>]"
      "[\<lparr>fx_Name = ''Rent'', fx_Amount = 8000\<rparr>, \<lparr>fx_Name = ''Phone'', fx_Amount = 500\<rparr>]"]
      calculate_dashboard_metrics_totals [of "mk_datetime 2024 5 10" "[]" "[]" "[]"] e
    by simp
qed

text \<open>
  C2. The payday anchor is day 25 of the next month when today's day of the month is
  greater than 25, with December rolling over to January of the next year, and day 25
  of the current month otherwise, the 25th itself included. The suggested daily spend
  divides the balance by the whole days from today to that anchor.
\<close>

theorem target_date_for_daily_spend_rule:
  "(day today > 25 \<and> month today \<noteq> 12 \<longrightarrow>
      target_date_for_daily_spend today =
        \<lparr>year = year today, month = month today + 1, day = 25, tod = 0\<rparr>)
   \<and> (day today > 25 \<and> month today = 12 \<longrightarrow>
      target_date_for_daily_spend today = \<lparr>year = year today + 1, month = 1, day = 25, tod = 0\<rparr>)
   \<and> (day today \<le> 25 \<longrightarrow>
      target_date_for_daily_spend today =
        \<lparr>year = year today, month = month today, day = 25, tod = 0\<rparr>)
   \<and> suggested_daily (calculate_dashboard_metrics today ledger fixed) =
      max 0 (balance (calculate_dashboard_metrics today ledger fixed)
             / of_int (max 1 (datetime_diff_days (target_date_for_daily_spend today) today)))"
  by (auto simp: target_date_for_daily_spend_def mk_datetime_def Let_def
      calculate_dashboard_metrics_def days_until_25th_safe_def days_until_25th_def max_def)

theorem target_date_for_daily_spend_rule_witness:
  "target_date_for_daily_spend \<lparr>year = 2024, month = 5, day = 26, tod = 0\<rparr> =
      \<lparr>year = 2024, month = 6, day = 25, tod = 0\<rparr>
   \<and> target_date_for_daily_spend \<lparr>year = 2024, month = 12, day = 26, tod = 0\<rparr> =
      \<lparr>year = 2025, month = 1, day = 25, tod = 0\<rparr>
   \<and> target_date_for_daily_spend \<lparr>year = 2024, month = 5, day = 25, tod = 0\<rparr> =
      \<lparr>year = 2024, month = 5, day = 25, tod = 0\<rparr>
   \<and> target_date_for_daily_spend \<lparr>year = 2024, month = 5, day = 10, tod = 0\<rparr> =
      \<lparr>year = 2024, month = 5, day = 25, tod = 0\<rparr>"
  using target_date_for_daily_spend_rule [of "\<lparr>year = 2024, month = 5, day = 26, tod = 0\<rparr>"]
    target_date_for_daily_spend_rule [of "\<lparr>year = 2024, month = 12, day = 26, tod = 0\<rparr>"]
    target_date_for_daily_spend_rule [of "\<lparr>year = 2024, month = 5, day = 25, tod = 0\<rparr>"]
    target_date_for_daily_spend_rule [of "\<lparr>year = 2024, month = 5, day = 10, tod = 0\<rparr>"]
  by simp

lemma days_until_25th_on_payday:
  "days_until_25th \<lparr>year = 2024, month = 5, day = 25, tod = 36000000000\<rparr> = - 1"
  by (simp add: days_until_25th_def target_date_for_daily_spend_def mk_datetime_def
      datetime_diff_days_def toordinal_def usec_per_day_def)

lemma days_until_25th_mid_month:
  "days_until_25th \<lparr>year = 2024, month = 5, day = 10, tod = 0\<rparr> = 15"
  by (simp add: days_until_25th_def target_date_for_daily_spend_def mk_datetime_def
      datetime_diff_days_def toordinal_def usec_per_day_def)

lemma balance_single_row:
  "balance (calculate_dashboard_metrics today
      [\<lparr>tx_Date = None, tx_Type = ty, tx_Category = c, tx_Amount = a, tx_Note = n\<rparr>] fixed) =
     (if ty = ''Income'' then a else 0) - (if ty = ''Expense'' then a else 0)"
  by (simp add: calculate_dashboard_metrics_def Let_def)

text \<open>
  C6. The day count that divides the balance is positive: a count of zero or less is
  replaced by one, a positive count is used as it is. A negative quotient is replaced by
  zero, so the suggested daily spend is never negative, whatever the ledger and the day.
\<close>

theorem suggested_daily_never_negative:
  "0 < days_until_25th_safe today
   \<and> (days_until_25th today \<le> 0 \<longrightarrow> days_until_25th_safe today = 1)
   \<and> (0 < days_until_25th today \<longrightarrow> days_until_25th_safe today = days_until_25th today)
   \<and> (balance (calculate_dashboard_metrics today ledger fixed)
          / of_int (days_until_25th_safe today) < 0 \<longrightarrow>
        suggested_daily (calculate_dashboard_metrics today ledger fixed) = 0)
   \<and> (0 \<le> balance (calculate_dashboard_metrics today ledger fixed)
          / of_int (days_until_25th_safe today) \<longrightarrow>
        suggested_daily (calculate_dashboard_metrics today ledger fixed) =
          balance (calculate_dashboard_metrics today ledger fixed)
            / of_int (days_until_25th_safe today))
   \<and> 0 \<le> suggested_daily (calculate_dashboard_metrics today ledger fixed)"
  by (auto simp: calculate_dashboard_metrics_def Let_def days_until_25th_safe_def)

theorem suggested_daily_never_negative_witness:
  "days_until_25th \<lparr>year = 2024, month = 5, day = 25, tod = 36000000000\<rparr> \<le> 0
   \<and> days_until_25th_safe \<lparr>year = 2024, month = 5, day = 25, tod = 36000000000\<rparr> = 1
   \<and> suggested_daily (calculate_dashboard_metrics
        \<lparr>year = 2024, month = 5, day = 25, tod = 36000000000\<rparr>
        [\<lparr>tx_Date = None, tx_Type = ''Expense'', tx_Category = ''Food'', tx_Amount = 100,
          tx_Note = []\<rparr>] []) = 0
   \<and> 0 < days_until_25th \<lparr>year = 2024, month = 5, day = 10, tod = 0\<rparr>
   \<and> days_until_25th_safe \<lparr>year = 2024, month = 5, day = 10, tod = 0\<rparr> = 15
   \<and> suggested_daily (calculate_dashboard_metrics
        \<lparr>year = 2024, month = 5, day = 10, tod = 0\<rparr>
        [\<lparr>tx_Date = None, tx_Type = ''Income'', tx_Category = ''Income'', tx_Amount = 3000,
          tx_Note = []\<rparr>] []) = 200"
  using suggested_daily_never_negative [of "\<lparr>year = 2024, month = 5, day = 25, tod = 36000000000\<rparr>"
      "[\<lparr>tx_Date = None, tx_Type = ''Expense'', tx_Category = ''Food'', tx_Amount = 100,
          tx_Note = []\<rparr>]" "[]"]
    suggested_daily_never_negative [of "\<lparr>year = 2024, month = 5, day = 10, tod = 0\<rparr>"
      "[\<lparr>tx_Date = None, tx_Type = ''Income'', tx_Category = ''Income'', tx_Amount = 3000,
          tx_Note = []\<rparr>]" "[]"]
  by (simp add: days_until_25th_on_payday days_until_25th_mid_month balance_single_row)

subsection \<open>Saving goals\<close>

text \<open>
  C7. The progress of a goal lies between 0 and 100 and is 0 for a target of zero. For a
  positive target it is the ratio of the saved amount to the target, times 100, clamped
  to the range from 0 to 100; so it is for a negative target when the saved amount is not
  negative, as the data model requires.
\<close>

theorem progress_percent_clamped:
  "0 \<le> progress_percent goal_amount current_saved
   \<and> progress_percent goal_amount current_saved \<le> 100
   \<and> progress_percent (Some 0) current_saved = 0
   \<and> (0 < g \<or> (g < 0 \<and> 0 \<le> c) \<longrightarrow>
        progress_percent (Some g) (Some c) = min 100 (max 0 (c / g * 100)))"
proof -
  have "g < 0 \<Longrightarrow> 0 \<le> c \<Longrightarrow> c / g * 100 \<le> 0"
    by (simp add: divide_nonneg_neg mult_nonpos_nonneg)
  then show ?thesis
    by (auto simp: progress_percent_def Let_def split: option.splits)
qed

theorem progress_percent_clamped_witness:
  "progress_percent (Some 10000) (Some 2500) = 25
   \<and> progress_percent (Some 100) (Some 250) = 100
   \<and> progress_percent (Some 0) (Some 250) = 0"
  using progress_percent_clamped [where goal_amount = "Some 10000" and current_saved = "Some 2500"
      and g = 10000 and c = 2500]
    progress_percent_clamped [where goal_amount = "Some 100" and current_saved = "Some 250"
      and g = 100 and c = 250]
  by simp

text \<open>The ordinal of a date follows the order of the calendar.\<close>

lemma div_pred:
  fixes y k :: int
  assumes "0 < k"
  shows "(y - 1) div k = y div k - (if y mod k = 0 then 1 else 0)"
proof (cases "y mod k = 0")
  case True
  then have "y = k * (y div k)"
    by (metis add.right_neutral mult_div_mod_eq)
  then have "y - 1 = k * (y div k - 1) + (k - 1)"
    by (simp add: algebra_simps)
  then have "(y - 1) div k = y div k - 1"
    using assms by (intro int_div_pos_eq [where r = "k - 1"]) simp_all
  with True show ?thesis by simp
next
  case False
  have "0 \<le> y mod k" "y mod k < k"
    using assms by (simp_all add: pos_mod_sign pos_mod_bound)
  with False have r: "0 \<le> y mod k - 1" "y mod k - 1 < k"
    by simp_all
  have "y - 1 = k * (y div k) + (y mod k - 1)"
    by simp
  then have "(y - 1) div k = y div k"
    using r by (intro int_div_pos_eq [where r = "y mod k - 1"]) simp_all
  with False show ?thesis by simp
qed

lemma mod_400_100: "(y::int) mod 400 = 0 \<Longrightarrow> y mod 100 = 0"
proof -
  assume "y mod 400 = 0"
  then have "400 dvd y" by (simp add: mod_eq_0_iff_dvd)
  moreover have "(100::int) dvd 400" by simp
  ultimately have "100 dvd y" by (rule dvd_trans [rotated])
  then show ?thesis by (simp add: mod_eq_0_iff_dvd)
qed

lemma mod_100_4: "(y::int) mod 100 = 0 \<Longrightarrow> y mod 4 = 0"
proof -
  assume "y mod 100 = 0"
  then have "100 dvd y" by (simp add: mod_eq_0_iff_dvd)
  moreover have "(4::int) dvd 100" by simp
  ultimately have "4 dvd y" by (rule dvd_trans [rotated])
  then show ?thesis by (simp add: mod_eq_0_iff_dvd)
qed



lemma days_before_year_next:
  "days_before_year (y + 1) = days_before_year y + (if is_leap y then 366 else 365)"
  using mod_400_100 [of y] mod_100_4 [of y]
  by (auto simp: days_before_year_def is_leap_def div_pred [of 4 y] div_pred [of 100 y]
      div_pred [of 400 y])

lemma days_before_year_mono: "y \<le> y' \<Longrightarrow> days_before_year y \<le> days_before_year y'"
proof (induction y' rule: int_ge_induct)
  case base
  show ?case by simp
next
  case (step i)
  then show ?case by (simp add: days_before_year_next)
qed

lemma days_in_month_ge: "28 \<le> days_in_month y m"
  by (simp add: days_in_month_def)

lemma days_before_month_next:
  "1 \<le> m \<Longrightarrow> days_before_month y (m + 1) = days_before_month y m + days_in_month y m"
  by (simp add: days_before_month_def upto_rec2 [of 1 m])

lemma days_before_month_mono:
  assumes "m \<le> m'" and "1 \<le> m"
  shows "days_before_month y m \<le> days_before_month y m'"
  using assms(1)
proof (induction m' rule: int_ge_induct)
  case base
  show ?case by simp
next
  case (step i)
  then show ?case
    using days_in_month_ge [of y i] assms(2) by (simp add: days_before_month_next)
qed

lemma days_before_month_1: "days_before_month y 1 = 0"
  by (simp add: days_before_month_def)

lemma days_before_month_13: "days_before_month y 13 = (if is_leap y then 366 else 365)"
  by (simp add: days_before_month_def days_in_month_def upto.simps)

lemma day_of_year_bounds:
  assumes "valid_date d"
  shows "1 \<le> days_before_month (year d) (month d) + day d"
    and "days_before_month (year d) (month d) + day d \<le> (if is_leap (year d) then 366 else 365)"
proof -
  from assms have m: "1 \<le> month d" "month d \<le> 12"
    and dd: "1 \<le> day d" "day d \<le> days_in_month (year d) (month d)"
    by (simp_all add: valid_date_def)
  have "0 \<le> days_before_month (year d) (month d)"
    using days_before_month_mono [of 1 "month d" "year d"] m by (simp add: days_before_month_1)
  with dd show "1 \<le> days_before_month (year d) (month d) + day d" by simp
  have "days_before_month (year d) (month d) + day d \<le> days_before_month (year d) (month d + 1)"
    using dd m by (simp add: days_before_month_next)
  also have "\<dots> \<le> days_before_month (year d) 13"
    using m by (intro days_before_month_mono) simp_all
  finally show "days_before_month (year d) (month d) + day d \<le> (if is_leap (year d) then 366 else 365)"
    by (simp add: days_before_month_13)
qed

lemma toordinal_less_year:
  assumes "valid_date a" "valid_date b" "year a < year b"
  shows "toordinal a < toordinal b"
proof -
  have "toordinal a \<le> days_before_year (year a + 1)"
    using day_of_year_bounds(2) [OF assms(1)]
    by (simp add: toordinal_def days_before_year_next split: if_splits)
  also have "\<dots> \<le> days_before_year (year b)"
    using assms(3) by (intro days_before_year_mono) simp
  also have "\<dots> < toordinal b"
    using day_of_year_bounds(1) [OF assms(2)] by (simp add: toordinal_def)
  finally show ?thesis .
qed

lemma toordinal_less_month:
  assumes "valid_date a" "valid_date b" "year a = year b" "month a < month b"
  shows "toordinal a < toordinal b"
proof -
  from assms have m: "1 \<le> month a" and da: "day a \<le> days_in_month (year a) (month a)"
    and db: "1 \<le> day b"
    by (simp_all add: valid_date_def)
  have "days_before_month (year a) (month a) + day a \<le> days_before_month (year a) (month a + 1)"
    using da m by (simp add: days_before_month_next)
  also have "\<dots> \<le> days_before_month (year a) (month b)"
    using m assms(4) by (intro days_before_month_mono) simp_all
  finally show ?thesis
    using db assms(3) by (simp add: toordinal_def)
qed

lemma toordinal_le_iff:
  assumes "valid_date a" "valid_date b"
  shows "toordinal a \<le> toordinal b \<longleftrightarrow> date_less_eq a b"
proof -
  consider "year a < year b" | "year b < year a"
    | "year a = year b" "month a < month b" | "year a = year b" "month b < month a"
    | "year a = year b" "month a = month b"
    by linarith
  then show ?thesis
  proof cases
    case 1
    with toordinal_less_year [OF assms] show ?thesis by (simp add: date_less_eq_def)
  next
    case 2
    with toordinal_less_year [OF assms(2,1)] show ?thesis by (auto simp: date_less_eq_def)
  next
    case 3
    with toordinal_less_month [OF assms] show ?thesis by (simp add: date_less_eq_def)
  next
    case 4
    with toordinal_less_month [OF assms(2,1)] show ?thesis by (auto simp: date_less_eq_def)
  next
    case 5
    then show ?thesis by (auto simp: date_less_eq_def toordinal_def)
  qed
qed

lemma hundred_days:
  "date_diff_days \<lparr>year = 2024, month = 4, day = 10\<rparr> \<lparr>year = 2024, month = 1, day = 1\<rparr> = 100"
  by (simp add: date_diff_days_def toordinal_def days_before_month_def days_in_month_def
      is_leap_def upto.simps)

text \<open>
  C5. The required amount per period is 0 when the saved amount has reached the target
  or the target date is not after today, in days to the target and in the order of the
  calendar alike. Otherwise, with the remaining amount and the
  number of days to the target date, it is the remaining amount divided by the days for
  Daily, by the days over 7 for Weekly and by the days over 30.44 for Monthly. The
  add-goal form computes the same value with nothing saved.
\<close>

theorem required_per_frequency:
  "(g \<le> c \<or> date_diff_days target today_date \<le> 0 \<longrightarrow>
      edited_saving_amount_per_freq today_date g (Some c) target freq = 0)
   \<and> (c < g \<and> 0 < date_diff_days target today_date \<longrightarrow>
      edited_saving_amount_per_freq today_date g (Some c) target ''Daily'' =
        (g - c) / of_int (date_diff_days target today_date)
      \<and> edited_saving_amount_per_freq today_date g (Some c) target ''Weekly'' =
        (g - c) / (of_int (date_diff_days target today_date) / 7)
      \<and> edited_saving_amount_per_freq today_date g (Some c) target ''Monthly'' =
        (g - c) / (of_int (date_diff_days target today_date) / (3044 / 100)))
   \<and> (valid_date target \<and> valid_date today_date \<and> date_less_eq target today_date \<longrightarrow>
      edited_saving_amount_per_freq today_date g (Some c) target freq = 0)
   \<and> new_saving_amount_per_freq today_date g (Some target) freq =
      edited_saving_amount_per_freq today_date g (Some 0) target freq"
  using toordinal_le_iff [of target today_date]
  by (auto simp: edited_saving_amount_per_freq_def new_saving_amount_per_freq_def Let_def
      date_diff_days_def)

theorem required_per_frequency_witness:
  "(2500::real) < 10000
   \<and> 0 < date_diff_days \<lparr>year = 2024, month = 4, day = 10\<rparr> \<lparr>year = 2024, month = 1, day = 1\<rparr>
   \<and> edited_saving_amount_per_freq \<lparr>year = 2024, month = 1, day = 1\<rparr> 10000 (Some 2500)
        \<lparr>year = 2024, month = 4, day = 10\<rparr> ''Weekly'' = 525
   \<and> edited_saving_amount_per_freq \<lparr>year = 2024, month = 1, day = 1\<rparr> 10000 (Some 2500)
        \<lparr>year = 2024, month = 4, day = 10\<rparr> ''Daily'' = 75
   \<and> edited_saving_amount_per_freq \<lparr>year = 2024, month = 1, day = 1\<rparr> 10000 (Some 2500)
        \<lparr>year = 2024, month = 4, day = 10\<rparr> ''Monthly'' = 2283
   \<and> edited_saving_amount_per_freq \<lparr>year = 2024, month = 1, day = 1\<rparr> 10000 (Some 10000)
        \<lparr>year = 2024, month = 4, day = 10\<rparr> ''Weekly'' = 0
   \<and> valid_date \<lparr>year = 2024, month = 1, day = 1\<rparr>
   \<and> valid_date \<lparr>year = 2024, month = 4, day = 10\<rparr>
   \<and> date_less_eq \<lparr>year = 2024, month = 1, day = 1\<rparr> \<lparr>year = 2024, month = 4, day = 10\<rparr>
   \<and> edited_saving_amount_per_freq \<lparr>year = 2024, month = 4, day = 10\<rparr> 10000 (Some 2500)
        \<lparr>year = 2024, month = 1, day = 1\<rparr> ''Weekly'' = 0"
  using required_per_frequency [of 10000 2500 "\<lparr>year = 2024, month = 4, day = 10\<rparr>"
      "\<lparr>year = 2024, month = 1, day = 1\<rparr>" "''Weekly''"]
    required_per_frequency [of 10000 10000 "\<lparr>year = 2024, month = 4, day = 10\<rparr>"
      "\<lparr>year = 2024, month = 1, day = 1\<rparr>" "''Weekly''"]
    required_per_frequency [of 10000 2500 "\<lparr>year = 2024, month = 1, day = 1\<rparr>"
      "\<lparr>year = 2024, month = 4, day = 10\<rparr>" "''Weekly''"]
  by (simp add: hundred_days valid_date_def date_less_eq_def days_in_month_def)

lemma edited_goal_rows_all_saved:
  "list_all (\<lambda>row. has_essential_fields row \<longrightarrow> CurrentSaved row \<noteq> None) df \<Longrightarrow>
     snd (edited_goal_rows today_date df) = None
     \<and> map (Some \<circ> gs_GoalName) (fst (edited_goal_rows today_date df)) =
         map GoalName (filter has_essential_fields df)
     \<and> map (Some \<circ> gs_GoalAmount) (fst (edited_goal_rows today_date df)) =
         map GoalAmount (filter has_essential_fields df)
     \<and> map (Some \<circ> gs_TargetDate) (fst (edited_goal_rows today_date df)) =
         map TargetDate (filter has_essential_fields df)
     \<and> map (Some \<circ> gs_CurrentSaved) (fst (edited_goal_rows today_date df)) =
         map CurrentSaved (filter has_essential_fields df)"
  by (induction df)
     (auto simp: has_essential_fields_def split: option.splits prod.splits)

text \<open>
  C10, at an input where the code falls short of it. The edited rows are Car, a row
  without a name, Books and Trip; Books was added in the editor and has no
  \<^verbatim>\<open>CurrentSaved\<close>. The three rows with a name, an amount and a target date are Car,
  Books and Trip, but the save stops at Books with an error: the cleared sheet holds Car
  alone, and Trip is lost with Books.
\<close>

theorem save_goal_edits_stops_at_missing_saved:
  "map GoalName (filter has_essential_fields
      [\<lparr>GoalName = Some ''Car'', GoalAmount = Some 10000, Emoji = ''c'', CurrentSaved = Some 2500,
         TargetDate = Some \<lparr>year = 2024, month = 4, day = 10\<rparr>, SavingFrequency = ''Weekly'',
         SavingAmountPerFreq = Some 0\<rparr>,
       \<lparr>GoalName = None, GoalAmount = Some 500, Emoji = ''h'', CurrentSaved = Some 0,
         TargetDate = Some \<lparr>year = 2024, month = 4, day = 10\<rparr>, SavingFrequency = ''Daily'',
         SavingAmountPerFreq = None\<rparr>,
       \<lparr>GoalName = Some ''Books'', GoalAmount = Some 300, Emoji = ''b'', CurrentSaved = None,
         TargetDate = Some \<lparr>year = 2024, month = 2, day = 1\<rparr>, SavingFrequency = ''Monthly'',
         SavingAmountPerFreq = None\<rparr>,
       \<lparr>GoalName = Some ''Trip'', GoalAmount = Some 500, Emoji = ''t'', CurrentSaved = Some 0,
         TargetDate = Some \<lparr>year = 2024, month = 3, day = 1\<rparr>, SavingFrequency = ''Daily'',
         SavingAmountPerFreq = Some 0\<rparr>]) = [Some ''Car'', Some ''Books'', Some ''Trip'']
   \<and> map gs_GoalName (goals_sheet (fst (save_goal_edits \<lparr>year = 2024, month = 1, day = 1\<rparr>
      [\<lparr>GoalName = Some ''Car'', GoalAmount = Some 10000, Emoji = ''c'', CurrentSaved = Some 2500,
         TargetDate = Some \<lparr>year = 2024, month = 4, day = 10\<rparr>, SavingFrequency = ''Weekly'',
         SavingAmountPerFreq = Some 0\<rparr>,
       \<lparr>GoalName = None, GoalAmount = Some 500, Emoji = ''h'', CurrentSaved = Some 0,
         TargetDate = Some \<lparr>year = 2024, month = 4, day = 10\<rparr>, SavingFrequency = ''Daily'',
         SavingAmountPerFreq = None\<rparr>,
       \<lparr>GoalName = Some ''Books'', GoalAmount = Some 300, Emoji = ''b'', CurrentSaved = None,
         TargetDate = Some \<lparr>year = 2024, month = 2, day = 1\<rparr>, SavingFrequency = ''Monthly'',
         SavingAmountPerFreq = None\<rparr>,
       \<lparr>GoalName = Some ''Trip'', GoalAmount = Some 500, Emoji = ''t'', CurrentSaved = Some 0,
         TargetDate = Some \<lparr>year = 2024, month = 3, day = 1\<rparr>, SavingFrequency = ''Daily'',
         SavingAmountPerFreq = Some 0\<rparr>]
      \<lparr>sheet = [], fixed_expenses_sheet = [], goals_sheet = [], monthly_plans_sheet = []\<rparr>))) =
      [''Car'']
   \<and> snd (save_goal_edits \<lparr>year = 2024, month = 1, day = 1\<rparr>
      [\<lparr>GoalName = Some ''Car'', GoalAmount = Some 10000, Emoji = ''c'', CurrentSaved = Some 2500,
         TargetDate = Some \<lparr>year = 2024, month = 4, day = 10\<rparr>, SavingFrequency = ''Weekly'',
         SavingAmountPerFreq = Some 0\<rparr>,
       \<lparr>GoalName = None, GoalAmount = Some 500, Emoji = ''h'', CurrentSaved = Some 0,
         TargetDate = Some \<lparr>year = 2024, month = 4, day = 10\<rparr>, SavingFrequency = ''Daily'',
         SavingAmountPerFreq = None\<rparr>,
       \<lparr>GoalName = Some ''Books'', GoalAmount = Some 300, Emoji = ''b'', CurrentSaved = None,
         TargetDate = Some \<lparr>year = 2024, month = 2, day = 1\<rparr>, SavingFrequency = ''Monthly'',
         SavingAmountPerFreq = None\<rparr>,
       \<lparr>GoalName = Some ''Trip'', GoalAmount = Some 500, Emoji = ''t'', CurrentSaved = Some 0,
         TargetDate = Some \<lparr>year = 2024, month = 3, day = 1\<rparr>, SavingFrequency = ''Daily'',
         SavingAmountPerFreq = Some 0\<rparr>]
      \<lparr>sheet = [], fixed_expenses_sheet = [], goals_sheet = [], monthly_plans_sheet = []\<rparr>) =
      Some InvalidJSONError"
  by (simp add: has_essential_fields_def save_goal_edits_def)

subsection \<open>The monthly plan\<close>

lemma fixed_expenses_to_add_items:
  "list_all (\<lambda>i. MonthYear i = sel \<and> ItemType i = ''Expense'' \<and> Category i = ''Fixed Expense''
       \<and> IsPaid i = False \<and> DatePaid i = None
       \<and> \<not> list_ex (\<lambda>r. ItemName r = ItemName i \<and> Category r = ''Fixed Expense'') ex)
     (fixed_expenses_to_add sel ex fxs)"
  by (induction fxs) auto

lemma filter_fixed_expenses_to_add:
  "filter (\<lambda>r. in_month sel r \<and> ItemType r = ''Expense'') (fixed_expenses_to_add sel ex fxs) =
     fixed_expenses_to_add sel ex fxs"
  by (induction fxs) (auto simp: in_month_def)

lemma fixed_expenses_to_add_covers:
  "row \<in> set fxs \<Longrightarrow>
     list_ex (\<lambda>r. ItemName r = fx_Name row \<and> Category r = ''Fixed Expense'')
       (ex @ fixed_expenses_to_add sel ex fxs)"
  by (induction fxs) (auto simp: list_ex_iff)

lemma fixed_expenses_to_add_none:
  "(\<And>row. row \<in> set fxs \<Longrightarrow>
       list_ex (\<lambda>r. ItemName r = fx_Name row \<and> Category r = ''Fixed Expense'') ex) \<Longrightarrow>
     fixed_expenses_to_add sel ex fxs = []"
  by (induction fxs) auto

lemma fixed_expenses_to_add_again:
  "fixed_expenses_to_add sel (ex @ fixed_expenses_to_add sel ex fxs) fxs = []"
  by (rule fixed_expenses_to_add_none) (rule fixed_expenses_to_add_covers)

lemma existing_after_projection:
  "existing_planned_expenses sel
     (plans @ fixed_expenses_to_add sel (existing_planned_expenses sel plans) fxs) =
   merged_planned_expenses sel fxs plans"
  by (simp add: existing_planned_expenses_def current_month_plan_df_def merged_planned_expenses_def
      Let_def filter_fixed_expenses_to_add)

text \<open>
  C4. The projection of the fixed expenses into a bucket is idempotent. Every projected
  item is an unpaid expense of category "Fixed Expense" without a payment date, added only
  when no planned expense of the bucket has its name and that category. Once the projected
  items are in the bucket, a second pass with the same fixed expenses adds nothing, and the
  merged items and the rows offered to the editor are the same as after the first pass.
\<close>

theorem fixed_expense_projection_idempotent:
  "fixed_expenses_to_add sel (merged_planned_expenses sel fxs plans) fxs = []
   \<and> existing_planned_expenses sel
       (plans @ fixed_expenses_to_add sel (existing_planned_expenses sel plans) fxs) =
     merged_planned_expenses sel fxs plans
   \<and> merged_planned_expenses sel fxs
       (plans @ fixed_expenses_to_add sel (existing_planned_expenses sel plans) fxs) =
     merged_planned_expenses sel fxs plans
   \<and> initial_planned_expenses_for_editor sel fxs
       (plans @ fixed_expenses_to_add sel (existing_planned_expenses sel plans) fxs) =
     initial_planned_expenses_for_editor sel fxs plans
   \<and> list_all (\<lambda>i. ItemType i = ''Expense'' \<and> Category i = ''Fixed Expense''
         \<and> IsPaid i = False \<and> DatePaid i = None
         \<and> \<not> list_ex (\<lambda>r. ItemName r = ItemName i \<and> Category r = ''Fixed Expense'')
               (existing_planned_expenses sel plans))
       (fixed_expenses_to_add sel (existing_planned_expenses sel plans) fxs)"
proof -
  let ?ex = "existing_planned_expenses sel plans"
  let ?add = "fixed_expenses_to_add sel ?ex fxs"
  have again: "fixed_expenses_to_add sel (merged_planned_expenses sel fxs plans) fxs = []"
    by (simp add: merged_planned_expenses_def Let_def fixed_expenses_to_add_again)
  have ex: "existing_planned_expenses sel (plans @ ?add) = merged_planned_expenses sel fxs plans"
    by (rule existing_after_projection)
  have merged: "merged_planned_expenses sel fxs (plans @ ?add) = merged_planned_expenses sel fxs plans"
    unfolding merged_planned_expenses_def [of sel fxs "plans @ ?add"] Let_def ex
    by (simp add: again)
  have items: "list_all (\<lambda>i. ItemType i = ''Expense'' \<and> Category i = ''Fixed Expense''
         \<and> IsPaid i = False \<and> DatePaid i = None
         \<and> \<not> list_ex (\<lambda>r. ItemName r = ItemName i \<and> Category r = ''Fixed Expense'') ?ex) ?add"
    using fixed_expenses_to_add_items [of sel ?ex fxs] by (simp add: list_all_iff)
  show ?thesis
    using again ex merged items by (simp add: initial_planned_expenses_for_editor_def)
qed

theorem fixed_expense_projection_idempotent_witness:
  "fixed_expenses_to_add (mk_datetime 2024 6 1)
     (existing_planned_expenses (mk_datetime 2024 6 1)
        [\<lparr>MonthYear = mk_datetime 2024 6 1, ItemType = ''Expense'', ItemName = ''Rent'',
          Amount = 8000, Category = ''Fixed Expense'', IsPaid = True,
          DatePaid = Some (mk_datetime 2024 6 25)\<rparr>])
     [\<lparr>fx_Name = ''Rent'', fx_Amount = 8000\<rparr>, \<lparr>fx_Name = ''Phone'', fx_Amount = 500\<rparr>] =
     [\<lparr>MonthYear = mk_datetime 2024 6 1, ItemType = ''Expense'', ItemName = ''Phone'',
       Amount = 500, Category = ''Fixed Expense'', IsPaid = False, DatePaid = None\<rparr>]
   \<and> fixed_expenses_to_add (mk_datetime 2024 6 1)
     (merged_planned_expenses (mk_datetime 2024 6 1)
        [\<lparr>fx_Name = ''Rent'', fx_Amount = 8000\<rparr>, \<lparr>fx_Name = ''Phone'', fx_Amount = 500\<rparr>]
        [\<lparr>MonthYear = mk_datetime 2024 6 1, ItemType = ''Expense'', ItemName = ''Rent'',
          Amount = 8000, Category = ''Fixed Expense'', IsPaid = True,
          DatePaid = Some (mk_datetime 2024 6 25)\<rparr>])
     [\<lparr>fx_Name = ''Rent'', fx_Amount = 8000\<rparr>, \<lparr>fx_Name = ''Phone'', fx_Amount = 500\<rparr>] = []"
  using fixed_expense_projection_idempotent [of "mk_datetime 2024 6 1"
      "[\<lparr>fx_Name = ''Rent'', fx_Amount = 8000\<rparr>, \<lparr>fx_Name = ''Phone'', fx_Amount = 500\<rparr>]"
      "[\<lparr>MonthYear = mk_datetime 2024 6 1, ItemType = ''Expense'', ItemName = ''Rent'',
          Amount = 8000, Category = ''Fixed Expense'', IsPaid = True,
          DatePaid = Some (mk_datetime 2024 6 25)\<rparr>]"]
  by (simp add: existing_planned_expenses_def current_month_plan_df_def in_month_def)

lemma case_filter_find:
  "(case filter P xs of [] \<Rightarrow> a | e # _ \<Rightarrow> f e) = (case find P xs of None \<Rightarrow> a | Some e \<Rightarrow> f e)"
  by (induction xs) auto

lemma updated_expense_plan_rows_map:
  "updated_expense_plan_rows sel snapshot edited =
     map (\<lambda>row. \<lparr>MonthYear = sel, ItemType = ''Expense'',
            ItemName = the (ed_ItemName row), Amount = the (ed_Amount row),
            Category = category_to_save (ed_Category row),
            IsPaid = (case find (\<lambda>r. ItemName r = the (ed_ItemName row)
                                    \<and> Category r = category_to_save (ed_Category row)) snapshot of
                        None \<Rightarrow> False | Some e \<Rightarrow> IsPaid e),
            DatePaid = (case find (\<lambda>r. ItemName r = the (ed_ItemName row)
                                    \<and> Category r = category_to_save (ed_Category row)) snapshot of
                        None \<Rightarrow> None | Some e \<Rightarrow> DatePaid e)\<rparr>)
       (filter row_is_kept edited)"
  by (induction edited)
     (auto simp: row_is_kept_def existing_item_def Let_def case_filter_find split: option.splits)

lemma row_is_kept_name: "row_is_kept row \<Longrightarrow> Some (the (ed_ItemName row)) = ed_ItemName row"
  by (auto simp: row_is_kept_def split: option.splits)

lemma row_is_kept_amount: "row_is_kept row \<Longrightarrow> Some (the (ed_Amount row)) = ed_Amount row"
  by (auto simp: row_is_kept_def split: option.splits)

lemma find_key_cong:
  "row_is_kept row \<Longrightarrow>
     find (\<lambda>r. ItemName r = the (ed_ItemName row) \<and> Category r = c) snapshot =
     find (\<lambda>r. Some (ItemName r) = ed_ItemName row \<and> Category r = c) snapshot"
  by (rule find_cong) (auto simp: row_is_kept_def split: option.splits)

lemma category_to_save_Food: "category_to_save (category_display ''Food'') = ''Food''"
  by (simp add: category_to_save_def category_display_def CATEGORY_MAP_def)


text \<open>
  C3, as the code has it. The paid status of an edited row is looked up by the pair of
  item name and category, not by the triple with the amount: each edited row with a name
  and a positive amount takes \<open>IsPaid\<close> and \<open>DatePaid\<close>, unchanged, from the first item
  of the bucket's snapshot with its name and its category, whatever that item's amount, and
  is unpaid without a payment date when there is none.
\<close>

theorem planned_expense_status_lookup:
  "map IsPaid (updated_expense_plan_rows sel snapshot edited) =
     map (\<lambda>row. case find (\<lambda>r. Some (ItemName r) = ed_ItemName row
                              \<and> Category r = category_to_save (ed_Category row)) snapshot of
                  None \<Rightarrow> False | Some e \<Rightarrow> IsPaid e)
       (filter row_is_kept edited)
   \<and> map DatePaid (updated_expense_plan_rows sel snapshot edited) =
     map (\<lambda>row. case find (\<lambda>r. Some (ItemName r) = ed_ItemName row
                              \<and> Category r = category_to_save (ed_Category row)) snapshot of
                  None \<Rightarrow> None | Some e \<Rightarrow> DatePaid e)
       (filter row_is_kept edited)
   \<and> map (Some \<circ> ItemName) (updated_expense_plan_rows sel snapshot edited) =
     map ed_ItemName (filter row_is_kept edited)
   \<and> map (Some \<circ> Amount) (updated_expense_plan_rows sel snapshot edited) =
     map ed_Amount (filter row_is_kept edited)
   \<and> map Category (updated_expense_plan_rows sel snapshot edited) =
     map (category_to_save \<circ> ed_Category) (filter row_is_kept edited)
   \<and> save_planned_expenses sel plans edited =
     filter (\<lambda>r. \<not> (in_month sel r \<and> ItemType r = ''Expense'')) plans
     @ updated_expense_plan_rows sel (current_month_plan_df sel plans) edited"
  unfolding updated_expense_plan_rows_map save_planned_expenses_def
  by (simp add: row_is_kept_name row_is_kept_amount find_key_cong cong: map_cong)

theorem planned_expense_status_lookup_witness:
  "map IsPaid (updated_expense_plan_rows (mk_datetime 2024 6 1)
      [\<lparr>MonthYear = mk_datetime 2024 6 1, ItemType = ''Expense'', ItemName = ''Lunch'',
        Amount = 100, Category = ''Food'', IsPaid = True,
        DatePaid = Some (mk_datetime 2024 6 25)\<rparr>]
      [\<lparr>ed_ItemName = Some ''Lunch'', ed_Amount = Some 150,
        ed_Category = category_display ''Food'', ed_IsPaid = True\<rparr>,
       \<lparr>ed_ItemName = Some ''Taxi'', ed_Amount = Some 40,
        ed_Category = category_display ''Travel'', ed_IsPaid = False\<rparr>,
       \<lparr>ed_ItemName = None, ed_Amount = Some 40,
        ed_Category = category_display ''Travel'', ed_IsPaid = False\<rparr>]) = [True, False]
   \<and> map DatePaid (updated_expense_plan_rows (mk_datetime 2024 6 1)
      [\<lparr>MonthYear = mk_datetime 2024 6 1, ItemType = ''Expense'', ItemName = ''Lunch'',
        Amount = 100, Category = ''Food'', IsPaid = True,
        DatePaid = Some (mk_datetime 2024 6 25)\<rparr>]
      [\<lparr>ed_ItemName = Some ''Lunch'', ed_Amount = Some 150,
        ed_Category = category_display ''Food'', ed_IsPaid = True\<rparr>,
       \<lparr>ed_ItemName = Some ''Taxi'', ed_Amount = Some 40,
        ed_Category = category_display ''Travel'', ed_IsPaid = False\<rparr>,
       \<lparr>ed_ItemName = None, ed_Amount = Some 40,
        ed_Category = category_display ''Travel'', ed_IsPaid = False\<rparr>]) =
      [Some (mk_datetime 2024 6 25), None]"
  using planned_expense_status_lookup [of "mk_datetime 2024 6 1"
      "[\<lparr>MonthYear = mk_datetime 2024 6 1, ItemType = ''Expense'', ItemName = ''Lunch'',
        Amount = 100, Category = ''Food'', IsPaid = True,
        DatePaid = Some (mk_datetime 2024 6 25)\<rparr>]"
      "[\<lparr>ed_ItemName = Some ''Lunch'', ed_Amount = Some 150,
        ed_Category = category_display ''Food'', ed_IsPaid = True\<rparr>,
       \<lparr>ed_ItemName = Some ''Taxi'', ed_Amount = Some 40,
        ed_Category = category_display ''Travel'', ed_IsPaid = False\<rparr>,
       \<lparr>ed_ItemName = None, ed_Amount = Some 40,
        ed_Category = category_display ''Travel'', ed_IsPaid = False\<rparr>]" "[]"]
  by (simp add: row_is_kept_def category_to_save_Food)

text \<open>
  C3 as stated fails. An edited row whose amount was changed matches no item on the
  triple, and is still saved as paid; and of two items with one name and one category the
  row that matches the paid one on the triple is saved as unpaid, the status of the first.
\<close>

theorem planned_expense_triple_lookup_counterexample:
  "triple_match
      [\<lparr>MonthYear = mk_datetime 2024 6 1, ItemType = ''Expense'', ItemName = ''Lunch'',
        Amount = 100, Category = ''Food'', IsPaid = True,
        DatePaid = Some (mk_datetime 2024 6 25)\<rparr>]
      ''Lunch'' ''Food'' 150 = None
   \<and> map IsPaid (updated_expense_plan_rows (mk_datetime 2024 6 1)
      [\<lparr>MonthYear = mk_datetime 2024 6 1, ItemType = ''Expense'', ItemName = ''Lunch'',
        Amount = 100, Category = ''Food'', IsPaid = True,
        DatePaid = Some (mk_datetime 2024 6 25)\<rparr>]
      [\<lparr>ed_ItemName = Some ''Lunch'', ed_Amount = Some 150,
        ed_Category = category_display ''Food'', ed_IsPaid = True\<rparr>]) = [True]
   \<and> triple_match
      [\<lparr>MonthYear = mk_datetime 2024 6 1, ItemType = ''Expense'', ItemName = ''Lunch'',
        Amount = 100, Category = ''Food'', IsPaid = False, DatePaid = None\<rparr>,
       \<lparr>MonthYear = mk_datetime 2024 6 1, ItemType = ''Expense'', ItemName = ''Lunch'',
        Amount = 200, Category = ''Food'', IsPaid = True,
        DatePaid = Some (mk_datetime 2024 6 25)\<rparr>]
      ''Lunch'' ''Food'' 200 =
      Some \<lparr>MonthYear = mk_datetime 2024 6 1, ItemType = ''Expense'', ItemName = ''Lunch'',
        Amount = 200, Category = ''Food'', IsPaid = True,
        DatePaid = Some (mk_datetime 2024 6 25)\<rparr>
   \<and> map IsPaid (updated_expense_plan_rows (mk_datetime 2024 6 1)
      [\<lparr>MonthYear = mk_datetime 2024 6 1, ItemType = ''Expense'', ItemName = ''Lunch'',
        Amount = 100, Category = ''Food'', IsPaid = False, DatePaid = None\<rparr>,
       \<lparr>MonthYear = mk_datetime 2024 6 1, ItemType = ''Expense'', ItemName = ''Lunch'',
        Amount = 200, Category = ''Food'', IsPaid = True,
        DatePaid = Some (mk_datetime 2024 6 25)\<rparr>]
      [\<lparr>ed_ItemName = Some ''Lunch'', ed_Amount = Some 200,
        ed_Category = category_display ''Food'', ed_IsPaid = True\<rparr>]) = [False]"
  by (simp add: triple_match_def existing_item_def category_to_save_Food)








subsection \<open>The add forms\<close>

text \<open>
  C9, as the code has it. A submission of the add-fixed-expense form or of the add-goal
  form with an empty name or an amount that is not positive leaves the store as it was;
  the add-fixed-expense form then shows a warning. The entry form tests nothing: every
  submission appends a row to the transactions.
\<close>

theorem rejected_submissions_write_nothing:
  "(fixed_name = [] \<or> fixed_amount \<le> 0 \<longrightarrow>
      fst (add_fixed_expense_form submitted fixed_name fixed_amount st) = st
      \<and> (submitted \<longrightarrow>
           snd (add_fixed_expense_form submitted fixed_name fixed_amount st) = [Warning]))
   \<and> (goal_name = [] \<or> goal_amount \<le> 0 \<longrightarrow>
      fst (add_new_goal_form today_date submitted goal_name goal_amount goal_emoji target_date
             saving_frequency st) = st)
   \<and> length (sheet (fst (entry_form True entry_date income_selected category amount note st))) =
      length (sheet st) + 1"
  by (auto simp: add_fixed_expense_form_def add_new_goal_form_def entry_form_def Let_def
      split: option.splits)

theorem rejected_submissions_write_nothing_witness:
  "fst (add_fixed_expense_form True [] 500
      \<lparr>sheet = [], fixed_expenses_sheet = [], goals_sheet = [], monthly_plans_sheet = []\<rparr>) =
      \<lparr>sheet = [], fixed_expenses_sheet = [], goals_sheet = [], monthly_plans_sheet = []\<rparr>
   \<and> snd (add_fixed_expense_form True [] 500
      \<lparr>sheet = [], fixed_expenses_sheet = [], goals_sheet = [], monthly_plans_sheet = []\<rparr>) = [Warning]
   \<and> fst (add_new_goal_form \<lparr>year = 2024, month = 1, day = 1\<rparr> True ''Car'' 0 ''c''
      (Some \<lparr>year = 2024, month = 4, day = 10\<rparr>) ''Weekly''
      \<lparr>sheet = [], fixed_expenses_sheet = [], goals_sheet = [], monthly_plans_sheet = []\<rparr>) =
      \<lparr>sheet = [], fixed_expenses_sheet = [], goals_sheet = [], monthly_plans_sheet = []\<rparr>"
  using rejected_submissions_write_nothing [where fixed_name = "[]" and fixed_amount = 500
      and submitted = True and goal_name = "''Car''" and goal_amount = 0
      and today_date = "\<lparr>year = 2024, month = 1, day = 1\<rparr>" and goal_emoji = "''c''"
      and target_date = "Some \<lparr>year = 2024, month = 4, day = 10\<rparr>"
      and saving_frequency = "''Weekly''"
      and st = "\<lparr>sheet = [], fixed_expenses_sheet = [], goals_sheet = [], monthly_plans_sheet = []\<rparr>"]
  by simp

text \<open>
  C9 as stated fails. The entry form accepts an amount of zero: the row is appended and a
  success message is shown. The add-goal form rejects an empty name without a warning.
\<close>

theorem entry_form_accepts_zero_counterexample:
  "entry_form True \<lparr>year = 2024, month = 6, day = 1\<rparr> False ''Food'' 0 []
      \<lparr>sheet = [], fixed_expenses_sheet = [], goals_sheet = [], monthly_plans_sheet = []\<rparr> =
     (\<lparr>sheet = [\<lparr>tx_Date = Some (mk_datetime 2024 6 1), tx_Type = ''Expense'',
                 tx_Category = ''Food'', tx_Amount = 0, tx_Note = []\<rparr>],
       fixed_expenses_sheet = [], goals_sheet = [], monthly_plans_sheet = []\<rparr>, [Success])
   \<and> snd (add_new_goal_form \<lparr>year = 2024, month = 1, day = 1\<rparr> True [] 100 ''c''
      (Some \<lparr>year = 2024, month = 4, day = 10\<rparr>) ''Weekly''
      \<lparr>sheet = [], fixed_expenses_sheet = [], goals_sheet = [], monthly_plans_sheet = []\<rparr>) = [Info]"
  by (simp add: entry_form_def add_new_goal_form_def Let_def)

end
